theory Spec2Isabelle
  imports Main "HOL-Library.Sublist"
begin

section \<open>Requests and responses of the serverless handlers\<close>

text \<open>
  A JavaScript string is modelled as a \<^typ>\<open>string\<close> whose characters are the code units
  \<open>0\<close> to \<open>255\<close>; strings with larger code units are outside the model.

  A value of \<open>request.query\<close> is a string or an array of strings (the declared type of the
  platform is \<open>string | string[]\<close>); an absent key reads as \<open>undefined\<close>, here \<open>None\<close>.
\<close>

datatype qval = QStr string | QArr "string list"

record request =
  method' :: string
  query :: "string \<rightharpoonup> qval"

text \<open>
  The body passed to \<open>response.json\<close>: either one of the object literals of the handlers,
  whose fields are all strings, or the value an upstream call returned.
\<close>

datatype 'r body = Obj "(string \<times> string) list" | Results 'r

text \<open>
  What a handler leaves behind: either \<open>handleCorsPreflight\<close> answered the request, or the
  handler sent a status and a JSON body; \<open>cors\<close> records that \<open>setCorsHeaders\<close> ran on the
  response before it was sent.
\<close>

datatype 'r reply =
    Preflight
  | Reply (cors: bool) (status: nat) (body: "'r body")

text \<open>A thrown value: an instance of \<open>Error\<close> with its message, or anything else.\<close>

datatype thrown = Error_instance string | Other_value

subsection \<open>The JavaScript operations the handlers use\<close>

text \<open>Truthiness of a query value: the empty string is falsy, every array is truthy.\<close>

fun truthy :: "qval \<Rightarrow> bool" where
  "truthy (QStr s) = (s \<noteq> [])"
| "truthy (QArr xs) = True"

text \<open>\<open>Array.prototype.join\<close> with the default separator.\<close>

fun join :: "string list \<Rightarrow> string" where
  "join [] = []"
| "join [x] = x"
| "join (x # y # ys) = x @ '','' @ join (y # ys)"

text \<open>
  The string conversion that \<open>parseFloat\<close>, \<open>parseInt\<close> and \<open>RegExp.prototype.test\<close>
  apply to their argument.
\<close>

fun toString :: "qval \<Rightarrow> string" where
  "toString (QStr s) = s"
| "toString (QArr xs) = join xs"

text \<open>White space and line terminators, as far as they are code units below 256.\<close>

definition isWhiteSpace :: "char \<Rightarrow> bool" where
  "isWhiteSpace c = (of_char c \<in> {9, 10, 11, 12, 13, 32, 160 :: nat})"

definition trim :: "string \<Rightarrow> string" where
  "trim s = rev (dropWhile isWhiteSpace (rev (dropWhile isWhiteSpace s)))"

text \<open>\<open>String.prototype.includes\<close>: the needle occurs at some position of the string.\<close>

fun includes_str :: "string \<Rightarrow> string \<Rightarrow> bool" where
  "includes_str [] needle = (needle = [])"
| "includes_str (c # cs) needle = (prefix needle (c # cs) \<or> includes_str cs needle)"

text \<open>
  \<open>const path = request.query.action as string[] || []; const action = path[0];\<close>
  Indexing a string yields its first code unit as a one-character string.
\<close>

fun first_segment :: "qval option \<Rightarrow> string option" where
  "first_segment None = None"
| "first_segment (Some (QStr [])) = None"
| "first_segment (Some (QStr (c # cs))) = Some [c]"
| "first_segment (Some (QArr [])) = None"
| "first_segment (Some (QArr (x # xs))) = Some x"

text \<open>
  The \<open>catch\<close> block shared by both handlers; \<open>label\<close> is the handler's \<open>error\<close> text.
\<close>

fun errorMessage :: "thrown \<Rightarrow> string" where
  "errorMessage (Error_instance m) = m"
| "errorMessage Other_value = ''Unknown error''"

definition statusCode :: "string \<Rightarrow> nat" where
  "statusCode msg = (if includes_str msg ''limit'' \<or> includes_str msg ''402'' then 402 else 500)"

definition catch :: "string \<Rightarrow> thrown \<Rightarrow> 'r reply" where
  "catch label e =
     Reply True (statusCode (errorMessage e))
       (Obj [(''error'', label), (''message'', errorMessage e)])"

section \<open>The food/wine handler\<close>

text \<open>
  The handler's imports are not part of the modelled sources and are parameters:
  \<open>handleCorsPreflight\<close> tells whether it answered the request; an upstream call returns
  its result (\<open>Inr\<close>) or throws (\<open>Inl\<close>). The maximum price is an IEEE double in the code;
  its type is the parameter \<open>'n\<close>, with the runtime's \<open>parseFloat\<close>, \<open>isNaN\<close> and the
  comparison \<open>maxPrice < 0\<close> (\<open>ltZero\<close>) as parameters.
\<close>

record platform =
  handleCorsPreflight :: "request \<Rightarrow> bool"

record ('n, 'r) wine_env = platform +
  getDishPairingForWine :: "string \<Rightarrow> thrown + 'r"
  getWinePairing :: "string \<Rightarrow> 'n option \<Rightarrow> thrown + 'r"
  parseFloat :: "string \<Rightarrow> 'n"
  isNaN :: "'n \<Rightarrow> bool"
  ltZero :: "'n \<Rightarrow> bool"

datatype 'n wine_call =
    GetDishPairingForWine string
  | GetWinePairing string "'n option"

definition wine_upstream :: "('n, 'r) wine_env \<Rightarrow> 'n wine_call \<Rightarrow> thrown + 'r" where
  "wine_upstream env c =
     (case c of
        GetDishPairingForWine wine \<Rightarrow> getDishPairingForWine env wine
      | GetWinePairing food maxPrice \<Rightarrow> getWinePairing env food maxPrice)"

text \<open>
  \<open>await\<close> an upstream call inside the \<open>try\<close> block and send its result with status 200;
  a thrown value goes to the \<open>catch\<close> block. The call is recorded.
\<close>

definition wine_call_and_send ::
  "('n, 'r) wine_env \<Rightarrow> 'n wine_call \<Rightarrow> 'r reply \<times> 'n wine_call list" where
  "wine_call_and_send env c =
     (case wine_upstream env c of
        Inr results \<Rightarrow> (Reply True 200 (Results results), [c])
      | Inl e \<Rightarrow> (catch ''Failed to process request'' e, [c]))"

definition dishes :: "('n, 'r) wine_env \<Rightarrow> request \<Rightarrow> 'r reply \<times> 'n wine_call list" where
  "dishes env rq =
     (case query rq ''wine'' of
        None \<Rightarrow> (Reply True 400 (Obj [(''error'', ''Wine type is required'')]), [])
      | Some (QStr wine) \<Rightarrow>
          if wine = [] \<or> length (trim wine) = 0
          then (Reply True 400 (Obj [(''error'', ''Wine type is required'')]), [])
          else wine_call_and_send env (GetDishPairingForWine wine)
      | Some (QArr ws) \<Rightarrow>
          \<comment> \<open>an array has no \<open>trim\<close> method: the TypeError is caught\<close>
          (catch ''Failed to process request''
             (Error_instance ''wine.trim is not a function''), []))"

definition pairing :: "('n, 'r) wine_env \<Rightarrow> request \<Rightarrow> 'r reply \<times> 'n wine_call list" where
  "pairing env rq =
     (let maxPrice =
            (case query rq ''maxPrice'' of
               None \<Rightarrow> None
             | Some v \<Rightarrow> if truthy v then Some (parseFloat env (toString v)) else None)
      in case query rq ''food'' of
           None \<Rightarrow> (Reply True 400 (Obj [(''error'', ''Food name is required'')]), [])
         | Some (QStr food) \<Rightarrow>
             if food = [] \<or> length (trim food) = 0
             then (Reply True 400 (Obj [(''error'', ''Food name is required'')]), [])
             else if (case maxPrice of
                        None \<Rightarrow> False
                      | Some p \<Rightarrow> isNaN env p \<or> ltZero env p)
             then (Reply True 400 (Obj [(''error'', ''maxPrice must be a positive number'')]), [])
             else wine_call_and_send env (GetWinePairing food maxPrice)
         | Some (QArr fs) \<Rightarrow>
             (catch ''Failed to process request''
                (Error_instance ''food.trim is not a function''), []))"

definition wine_handler ::
  "('n, 'r) wine_env \<Rightarrow> request \<Rightarrow> 'r reply \<times> 'n wine_call list" where
  "wine_handler env rq =
     (if handleCorsPreflight env rq then (Preflight, [])
      else if method' rq \<noteq> ''GET''
      then (Reply True 405 (Obj [(''error'', ''Method not allowed'')]), [])
      else
        let action = first_segment (query rq ''action'') in
        if action = Some ''dishes'' then dishes env rq
        else if action = Some ''pairing'' then pairing env rq
        else (Reply True 404 (Obj [(''error'', ''Not found'')]), []))"

section \<open>The recipe-detail handler\<close>

text \<open>The test \<open>/^\d+$/.test(recipeId)\<close>: one or more characters, each of \<open>0\<close> to \<open>9\<close>.\<close>

definition isDigit :: "char \<Rightarrow> bool" where
  "isDigit c = (48 \<le> (of_char c :: nat) \<and> (of_char c :: nat) \<le> 57)"

definition digits_only :: "string \<Rightarrow> bool" where
  "digits_only s = (s \<noteq> [] \<and> list_all isDigit s)"

text \<open>
  \<open>parseInt(s, 10)\<close>: leading white space is skipped, one sign is read, then the longest
  run of decimal digits; with no digit the result is \<open>NaN\<close>, here \<open>None\<close>. The result is
  kept as a mathematical integer: the handler only compares it with 1 and 100 and forwards
  it when it lies between them, where the double of the code is that integer.
\<close>

definition digits_value :: "string \<Rightarrow> nat" where
  "digits_value z = foldl (\<lambda>acc c. 10 * acc + (of_char c - 48)) 0 z"

definition parseInt10 :: "string \<Rightarrow> int option" where
  "parseInt10 s =
     (let t = dropWhile isWhiteSpace s;
          negative = (t \<noteq> [] \<and> hd t = CHR ''-'');
          u = (if t \<noteq> [] \<and> (hd t = CHR ''-'' \<or> hd t = CHR ''+'') then tl t else t);
          z = takeWhile isDigit u
      in if z = [] then None
         else Some (if negative then - int (digits_value z) else int (digits_value z)))"

record options =
  includeNutrition :: bool
  addWinePairing :: bool
  addTasteData :: bool

text \<open>
  The upstream functions receive \<open>recipeId\<close> as the handler read it from the query, so
  their first argument is a query value.
\<close>

record 'r recipe_env = platform +
  getRecipeInformation :: "qval \<Rightarrow> options \<Rightarrow> thrown + 'r"
  getSimilarRecipes :: "qval \<Rightarrow> int \<Rightarrow> thrown + 'r"
  getRecipeSummary :: "qval \<Rightarrow> thrown + 'r"

datatype recipe_call =
    GetRecipeInformation qval options
  | GetSimilarRecipes qval int
  | GetRecipeSummary qval

definition recipe_upstream :: "'r recipe_env \<Rightarrow> recipe_call \<Rightarrow> thrown + 'r" where
  "recipe_upstream env c =
     (case c of
        GetRecipeInformation recipeId opts \<Rightarrow> getRecipeInformation env recipeId opts
      | GetSimilarRecipes recipeId number \<Rightarrow> getSimilarRecipes env recipeId number
      | GetRecipeSummary recipeId \<Rightarrow> getRecipeSummary env recipeId)"

definition recipe_call_and_send ::
  "'r recipe_env \<Rightarrow> recipe_call \<Rightarrow> 'r reply \<times> recipe_call list" where
  "recipe_call_and_send env c =
     (case recipe_upstream env c of
        Inr results \<Rightarrow> (Reply True 200 (Results results), [c])
      | Inl e \<Rightarrow> (catch ''Failed to fetch recipe data'' e, [c]))"

text \<open>\<open>const recipeId = (request.query.recipeId as string) || "";\<close>\<close>

definition recipeId_of :: "request \<Rightarrow> qval" where
  "recipeId_of rq =
     (case query rq ''recipeId'' of
        None \<Rightarrow> QStr []
      | Some v \<Rightarrow> if truthy v then v else QStr [])"

text \<open>The guard \<open>!recipeId || !/^\d+$/.test(recipeId)\<close>, negated.\<close>

definition recipeId_ok :: "qval \<Rightarrow> bool" where
  "recipeId_ok recipeId = (truthy recipeId \<and> digits_only (toString recipeId))"

definition information_options :: "request \<Rightarrow> options" where
  "information_options rq =
     \<lparr>includeNutrition = (query rq ''includeNutrition'' = Some (QStr ''true'')),
      addWinePairing = (query rq ''addWinePairing'' = Some (QStr ''true'')),
      addTasteData = (query rq ''addTasteData'' = Some (QStr ''true''))\<rparr>"

text \<open>
  \<open>request.query.number ? parseInt(request.query.number as string, 10) : 10\<close>;
  \<open>None\<close> is \<open>NaN\<close>.
\<close>

definition similar_number :: "request \<Rightarrow> int option" where
  "similar_number rq =
     (case query rq ''number'' of
        None \<Rightarrow> Some 10
      | Some v \<Rightarrow> if truthy v then parseInt10 (toString v) else Some 10)"

definition similar :: "'r recipe_env \<Rightarrow> request \<Rightarrow> qval \<Rightarrow> 'r reply \<times> recipe_call list" where
  "similar env rq recipeId =
     (case similar_number rq of
        None \<Rightarrow> (Reply True 400 (Obj [(''error'', ''Number must be between 1 and 100'')]), [])
      | Some number \<Rightarrow>
          if number < 1 \<or> number > 100
          then (Reply True 400 (Obj [(''error'', ''Number must be between 1 and 100'')]), [])
          else recipe_call_and_send env (GetSimilarRecipes recipeId number))"

definition recipe_handler :: "'r recipe_env \<Rightarrow> request \<Rightarrow> 'r reply \<times> recipe_call list" where
  "recipe_handler env rq =
     (if handleCorsPreflight env rq then (Preflight, [])
      else
        let recipeId = recipeId_of rq in
        if \<not> recipeId_ok recipeId
        then (Reply True 400 (Obj [(''error'', ''Valid recipe ID is required'')]), [])
        else
          let action = first_segment (query rq ''action'') in
          if method' rq \<noteq> ''GET''
          then (Reply True 405 (Obj [(''error'', ''Method not allowed'')]), [])
          else if action = Some ''information''
          then recipe_call_and_send env (GetRecipeInformation recipeId (information_options rq))
          else if action = Some ''similar'' then similar env rq recipeId
          else if action = Some ''summary''
          then recipe_call_and_send env (GetRecipeSummary recipeId)
          else (Reply True 404 (Obj [(''error'', ''Not found'')]), []))"

section \<open>String utilities\<close>

text \<open>
  \<open>str.replace(/\b\w/g, (char) => char.toUpperCase())\<close>: a match is a word character
  (\<open>[A-Za-z0-9_]\<close>) at the start of the string or after a character that is not a word
  character. The scan carries whether the previous character of the original string was a
  word character. \<open>toUpperCase\<close> is only ever applied to a word character.
\<close>

definition isLower :: "char \<Rightarrow> bool" where
  "isLower c = (97 \<le> (of_char c :: nat) \<and> (of_char c :: nat) \<le> 122)"

definition isUpper :: "char \<Rightarrow> bool" where
  "isUpper c = (65 \<le> (of_char c :: nat) \<and> (of_char c :: nat) \<le> 90)"

definition isWordChar :: "char \<Rightarrow> bool" where
  "isWordChar c = (isLower c \<or> isUpper c \<or> isDigit c \<or> c = CHR ''_'')"

definition toUpperCase :: "char \<Rightarrow> char" where
  "toUpperCase c = (if isLower c then char_of (of_char c - (32 :: nat)) else c)"

fun replace_word_starts :: "bool \<Rightarrow> string \<Rightarrow> string" where
  "replace_word_starts prev [] = []"
| "replace_word_starts prev (c # cs) =
     (if isWordChar c \<and> \<not> prev then toUpperCase c else c)
       # replace_word_starts (isWordChar c) cs"

definition capitalizeWords :: "string option \<Rightarrow> string" where
  "capitalizeWords str =
     (case str of
        None \<Rightarrow> []
      | Some s \<Rightarrow> if s = [] then [] else replace_word_starts False s)"

section \<open>Retry settings of the client cache layer\<close>

text \<open>
  The option objects handed to the query library, with the fields that govern caching,
  refetching and retrying; a field the object literal does not set is \<open>None\<close>. A retry
  delay is a number of milliseconds or a function of the failure count.
\<close>

datatype stale_time = Infinity | Stale_ms nat

datatype refetch = Refetch bool | Always

datatype retry_delay = Delay_ms nat | Delay_fun "nat \<Rightarrow> nat"

record query_options =
  enabled :: "bool option"
  staleTime :: "stale_time option"
  gcTime :: "nat option"
  retry :: "nat option"
  retryDelay :: "retry_delay option"
  refetchOnMount :: "refetch option"
  refetchOnWindowFocus :: "bool option"
  refetchOnReconnect :: "bool option"

record mutation_options =
  mutation_retry :: "nat option"

definition queryClient_queries :: query_options where
  "queryClient_queries =
     \<lparr>enabled = None, staleTime = Some Infinity, gcTime = Some (60 * 60 * 1000),
      retry = Some 1, retryDelay = None, refetchOnMount = Some (Refetch True),
      refetchOnWindowFocus = Some False, refetchOnReconnect = Some False\<rparr>"

definition queryClient_mutations :: mutation_options where
  "queryClient_mutations = \<lparr>mutation_retry = Some 0\<rparr>"

definition useSearchRecipes :: "string \<Rightarrow> int \<Rightarrow> bool \<Rightarrow> query_options" where
  "useSearchRecipes searchTerm page enabled' =
     \<lparr>enabled = Some (enabled' \<and> searchTerm \<noteq> []), staleTime = Some Infinity,
      gcTime = Some (5 * 60 * 1000), retry = Some 1, retryDelay = None,
      refetchOnMount = Some (Refetch True), refetchOnWindowFocus = None,
      refetchOnReconnect = None\<rparr>"

definition useFavouriteRecipes :: query_options where
  "useFavouriteRecipes =
     \<lparr>enabled = None, staleTime = Some Infinity, gcTime = Some (5 * 60 * 1000),
      retry = Some 1, retryDelay = None, refetchOnMount = Some (Refetch True),
      refetchOnWindowFocus = None, refetchOnReconnect = None\<rparr>"

definition useRecipeSummary :: "string option \<Rightarrow> bool \<Rightarrow> query_options" where
  "useRecipeSummary recipeId enabled' =
     \<lparr>enabled = Some (enabled' \<and> recipeId \<noteq> None \<and> recipeId \<noteq> Some []),
      staleTime = Some Infinity, gcTime = Some (5 * 60 * 1000), retry = Some 1,
      retryDelay = None, refetchOnMount = Some (Refetch True),
      refetchOnWindowFocus = None, refetchOnReconnect = None\<rparr>"

definition useWeatherSuggestions :: "'l option \<Rightarrow> bool \<Rightarrow> query_options" where
  "useWeatherSuggestions location enabled' =
     \<lparr>enabled = Some (enabled' \<and> location \<noteq> None), staleTime = Some (Stale_ms (5 * 60 * 1000)),
      gcTime = Some (10 * 60 * 1000), retry = Some 2, retryDelay = Some (Delay_ms 1000),
      refetchOnMount = Some Always, refetchOnWindowFocus = Some True,
      refetchOnReconnect = None\<rparr>"

definition useAddFavouriteRecipe :: mutation_options where
  "useAddFavouriteRecipe = \<lparr>mutation_retry = None\<rparr>"

definition useRemoveFavouriteRecipe :: mutation_options where
  "useRemoveFavouriteRecipe = \<lparr>mutation_retry = None\<rparr>"

subsection \<open>What the settings make the query library do\<close>

text \<open>
  The query library is not part of the repository. Its retry loop is modelled from its
  documented options, with the library's own defaults as parameters:
  \<^item> an option of a hook overrides the default of the query client, which overrides the
    default of the library (\<open>lib_retry\<close>, \<open>lib_delay\<close>);
  \<^item> \<open>retry: n\<close> retries a failing query while its failure count is below \<open>n\<close>;
  \<^item> before the retry that follows failure number \<open>failureCount\<close> (counted from 0) the
    library waits \<open>retryDelay\<close> milliseconds when it is a number, and
    \<open>retryDelay(failureCount)\<close> when it is a function.
\<close>

definition in_force :: "'a option \<Rightarrow> 'a option \<Rightarrow> 'a option" where
  "in_force client own = (case own of Some v \<Rightarrow> Some v | None \<Rightarrow> client)"

definition retry_count :: "nat \<Rightarrow> nat option \<Rightarrow> nat option \<Rightarrow> nat" where
  "retry_count lib_retry client own =
     (case in_force client own of Some n \<Rightarrow> n | None \<Rightarrow> lib_retry)"

definition delay_before_retry :: "(nat \<Rightarrow> nat) \<Rightarrow> retry_delay option \<Rightarrow> nat \<Rightarrow> nat" where
  "delay_before_retry lib_delay rd failureCount =
     (case rd of
        None \<Rightarrow> lib_delay failureCount
      | Some (Delay_ms ms) \<Rightarrow> ms
      | Some (Delay_fun f) \<Rightarrow> f failureCount)"

text \<open>
  The delays, in order, that a query which fails at every attempt waits before its
  retries; the length of the list is the number of retries.
\<close>

definition retry_schedule ::
  "nat \<Rightarrow> (nat \<Rightarrow> nat) \<Rightarrow> query_options \<Rightarrow> query_options \<Rightarrow> nat list" where
  "retry_schedule lib_retry lib_delay client own =
     map (delay_before_retry lib_delay (in_force (retryDelay client) (retryDelay own)))
       [0 ..< retry_count lib_retry (retry client) (retry own)]"

text \<open>A \<open>useQuery\<close> call that sets none of the modelled options.\<close>

definition no_options :: query_options where
  "no_options =
     \<lparr>enabled = None, staleTime = None, gcTime = None, retry = None, retryDelay = None,
      refetchOnMount = None, refetchOnWindowFocus = None, refetchOnReconnect = None\<rparr>"

section \<open>A concrete environment for evaluating the handlers\<close>

text \<open>
  Stand-ins for the imports, used to run the handlers on concrete requests. The preflight
  helper answers \<open>OPTIONS\<close> requests. The upstream calls echo their argument, and throw a
  rate-limit error for the food \<open>quota\<close> and the recipe \<open>402\<close>. Prices are integers read with
  \<open>parseInt10\<close>, which agrees with \<open>parseFloat\<close> on the empty string and on decimal integer
  literals.
\<close>

definition sample_wine_env :: "(int option, string) wine_env" where
  "sample_wine_env =
     \<lparr>handleCorsPreflight = (\<lambda>rq. method' rq = ''OPTIONS''),
      getDishPairingForWine = (\<lambda>wine. Inr wine),
      getWinePairing = (\<lambda>food maxPrice.
         if food = ''quota'' then Inl (Error_instance ''daily limit reached'') else Inr food),
      parseFloat = parseInt10,
      isNaN = (\<lambda>p. p = None),
      ltZero = (\<lambda>p. case p of None \<Rightarrow> False | Some n \<Rightarrow> n < 0)\<rparr>"

definition sample_recipe_env :: "string recipe_env" where
  "sample_recipe_env =
     \<lparr>handleCorsPreflight = (\<lambda>rq. method' rq = ''OPTIONS''),
      getRecipeInformation = (\<lambda>recipeId opts.
         if recipeId = QStr ''402'' then Inl (Error_instance ''status 402'')
         else Inr (toString recipeId)),
      getSimilarRecipes = (\<lambda>recipeId number. Inr (toString recipeId)),
      getRecipeSummary = (\<lambda>recipeId. Inr (toString recipeId))\<rparr>"

definition get :: "(string \<times> qval) list \<Rightarrow> request" where
  "get q = \<lparr>method' = ''GET'', query = map_of q\<rparr>"

section \<open>Facts about the string operations\<close>

lemma trim_Nil_iff: "length (trim s) = 0 \<longleftrightarrow> (\<forall>c\<in>set s. isWhiteSpace c)"
proof
  assume "length (trim s) = 0"
  then have a: "\<forall>c\<in>set (dropWhile isWhiteSpace s). isWhiteSpace c"
    by (simp add: trim_def dropWhile_eq_Nil_conv)
  show "\<forall>c\<in>set s. isWhiteSpace c"
  proof (cases "dropWhile isWhiteSpace s")
    case Nil
    then show ?thesis by (simp add: dropWhile_eq_Nil_conv)
  next
    case (Cons x xs)
    then have "\<not> isWhiteSpace x" using hd_dropWhile[of isWhiteSpace s] by simp
    moreover have "isWhiteSpace x" using a Cons by simp
    ultimately show ?thesis by simp
  qed
next
  assume b: "\<forall>c\<in>set s. isWhiteSpace c"
  then show "length (trim s) = 0" by (auto simp: trim_def dest: set_dropWhileD)
qed

lemma blank_check:
  "(s = [] \<or> trim s = []) \<longleftrightarrow> (\<forall>c\<in>set s. isWhiteSpace c)"
  using trim_Nil_iff[of s] by auto

lemma includes_str_sublist: "includes_str s needle \<longleftrightarrow> sublist needle s"
  by (induction s) (simp_all add: sublist_Cons_right)

lemma statusCode_sublist:
  "statusCode msg = (if sublist ''limit'' msg \<or> sublist ''402'' msg then 402 else 500)"
  by (simp add: statusCode_def includes_str_sublist)

text \<open>Unfolding set for running the handlers on concrete requests.\<close>

lemmas run_defs =
  wine_handler_def dishes_def pairing_def wine_call_and_send_def wine_upstream_def
  recipe_handler_def similar_def similar_number_def recipe_call_and_send_def recipe_upstream_def
  recipeId_of_def recipeId_ok_def digits_only_def isDigit_def information_options_def
  catch_def statusCode_def trim_def isWhiteSpace_def parseInt10_def digits_value_def
  get_def sample_wine_env_def sample_recipe_env_def Let_def

section \<open>Upstream calls and their traces\<close>

lemma wine_calls:
  "wine_handler env rq = (rep, calls) \<Longrightarrow> c \<in> set calls \<Longrightarrow>
   calls = [c] \<and> rep = fst (wine_call_and_send env c)"
  by (auto simp: wine_handler_def dishes_def pairing_def wine_call_and_send_def catch_def Let_def
      split: if_splits option.splits qval.splits sum.splits)

lemma recipe_calls:
  "recipe_handler env rq = (rep, calls) \<Longrightarrow> c \<in> set calls \<Longrightarrow>
   calls = [c] \<and> rep = fst (recipe_call_and_send env c)"
  by (auto simp: recipe_handler_def similar_def recipe_call_and_send_def catch_def Let_def
      split: if_splits option.splits qval.splits sum.splits)

section \<open>Errors thrown by upstream calls\<close>

text \<open>
  Claim C2. Whenever a handler made an upstream call and that call threw, the handler
  answers with status 402 if the error message (the message of an \<open>Error\<close> instance,
  \<open>Unknown error\<close> for any other thrown value) contains \<open>limit\<close> or \<open>402\<close>, and with
  status 500 otherwise; the body has the handler's \<open>error\<close> text and a \<open>message\<close> field
  holding that error message.
\<close>

theorem upstream_error_status:
  "(wine_handler wenv rq = (rep, calls) \<and> c \<in> set calls \<and> wine_upstream wenv c = Inl e \<longrightarrow>
      rep = Reply True (if sublist ''limit'' (errorMessage e) \<or> sublist ''402'' (errorMessage e)
                        then 402 else 500)
              (Obj [(''error'', ''Failed to process request''), (''message'', errorMessage e)]))
   \<and> (recipe_handler renv rq' = (rep', calls') \<and> c' \<in> set calls' \<and> recipe_upstream renv c' = Inl e' \<longrightarrow>
      rep' = Reply True (if sublist ''limit'' (errorMessage e') \<or> sublist ''402'' (errorMessage e')
                        then 402 else 500)
              (Obj [(''error'', ''Failed to fetch recipe data''), (''message'', errorMessage e')]))"
proof (intro conjI impI)
  assume "wine_handler wenv rq = (rep, calls) \<and> c \<in> set calls \<and> wine_upstream wenv c = Inl e"
  then show "rep = Reply True (if sublist ''limit'' (errorMessage e) \<or> sublist ''402'' (errorMessage e)
                        then 402 else 500)
              (Obj [(''error'', ''Failed to process request''), (''message'', errorMessage e)])"
    using wine_calls[of wenv rq rep calls c]
    by (simp add: wine_call_and_send_def catch_def statusCode_sublist)
next
  assume "recipe_handler renv rq' = (rep', calls') \<and> c' \<in> set calls' \<and> recipe_upstream renv c' = Inl e'"
  then show "rep' = Reply True (if sublist ''limit'' (errorMessage e') \<or> sublist ''402'' (errorMessage e')
                        then 402 else 500)
              (Obj [(''error'', ''Failed to fetch recipe data''), (''message'', errorMessage e')])"
    using recipe_calls[of renv rq' rep' calls' c']
    by (simp add: recipe_call_and_send_def catch_def statusCode_sublist)
qed


theorem upstream_error_status_witness:
  "wine_handler sample_wine_env
      (get [(''action'', QArr [''pairing'']), (''food'', QStr ''quota'')])
     = (Reply True 402
          (Obj [(''error'', ''Failed to process request''), (''message'', ''daily limit reached'')]),
        [GetWinePairing ''quota'' None])
   \<and> wine_upstream sample_wine_env (GetWinePairing ''quota'' None)
        = Inl (Error_instance ''daily limit reached'')
   \<and> recipe_handler sample_recipe_env
        (get [(''action'', QArr [''information'']), (''recipeId'', QStr ''402'')])
     = (Reply True 402
          (Obj [(''error'', ''Failed to fetch recipe data''), (''message'', ''status 402'')]),
        [GetRecipeInformation (QStr ''402'')
           \<lparr>includeNutrition = False, addWinePairing = False, addTasteData = False\<rparr>])
   \<and> recipe_upstream sample_recipe_env
        (GetRecipeInformation (QStr ''402'')
           \<lparr>includeNutrition = False, addWinePairing = False, addTasteData = False\<rparr>)
        = Inl (Error_instance ''status 402'')"
proof -
  let ?wrq = "get [(''action'', QArr [''pairing'']), (''food'', QStr ''quota'')]"
  let ?rrq = "get [(''action'', QArr [''information'']), (''recipeId'', QStr ''402'')]"
  let ?wc = "GetWinePairing ''quota'' (None :: int option option)"
  let ?rc = "GetRecipeInformation (QStr ''402'')
           \<lparr>includeNutrition = False, addWinePairing = False, addTasteData = False\<rparr>"
  have w_up: "wine_upstream sample_wine_env ?wc = Inl (Error_instance ''daily limit reached'')"
    by (simp add: wine_upstream_def sample_wine_env_def)
  have r_up: "recipe_upstream sample_recipe_env ?rc = Inl (Error_instance ''status 402'')"
    by (simp add: recipe_upstream_def sample_recipe_env_def)
  have w_calls: "snd (wine_handler sample_wine_env ?wrq) = [?wc]"
    by (simp add: run_defs)
  have r_calls: "snd (recipe_handler sample_recipe_env ?rrq) = [?rc]"
    by (simp add: run_defs)
  have lim: "sublist ''limit'' ''daily limit reached''" "sublist ''402'' ''status 402''"
    by (simp_all add: includes_str_sublist[symmetric])
  show ?thesis
    using upstream_error_status[of sample_wine_env ?wrq "fst (wine_handler sample_wine_env ?wrq)"
        "[?wc]" ?wc "Error_instance ''daily limit reached''"
        sample_recipe_env ?rrq "fst (recipe_handler sample_recipe_env ?rrq)"
        "[?rc]" ?rc "Error_instance ''status 402''"]
      w_up r_up w_calls r_calls lim
    by (simp add: prod_eq_iff)
qed

section \<open>Validation of required parameters\<close>

text \<open>
  Claim C4. On a GET request that the preflight helper did not answer: on the \<open>pairing\<close>
  route a \<open>food\<close> parameter that is absent, empty or made of white space only gives
  status 400 with \<open>{"error": "Food name is required"}\<close> and no upstream call; on the
  \<open>dishes\<close> route the same holds for \<open>wine\<close> with \<open>{"error": "Wine type is required"}\<close>.
\<close>

theorem required_parameter_missing:
  assumes "\<not> handleCorsPreflight env rq" and "method' rq = ''GET''"
  shows "(first_segment (query rq ''action'') = Some ''pairing'' \<and>
            (query rq ''food'' = None \<or>
             (\<exists>food. query rq ''food'' = Some (QStr food) \<and> (\<forall>c\<in>set food. isWhiteSpace c)))
          \<longrightarrow> wine_handler env rq
                = (Reply True 400 (Obj [(''error'', ''Food name is required'')]), []))
       \<and> (first_segment (query rq ''action'') = Some ''dishes'' \<and>
            (query rq ''wine'' = None \<or>
             (\<exists>wine. query rq ''wine'' = Some (QStr wine) \<and> (\<forall>c\<in>set wine. isWhiteSpace c)))
          \<longrightarrow> wine_handler env rq
                = (Reply True 400 (Obj [(''error'', ''Wine type is required'')]), []))"
proof (intro conjI impI)
  assume a: "first_segment (query rq ''action'') = Some ''pairing'' \<and>
            (query rq ''food'' = None \<or>
             (\<exists>food. query rq ''food'' = Some (QStr food) \<and> (\<forall>c\<in>set food. isWhiteSpace c)))"
  then have "wine_handler env rq = pairing env rq"
    using assms by (simp add: wine_handler_def)
  moreover have "pairing env rq = (Reply True 400 (Obj [(''error'', ''Food name is required'')]), [])"
    using a by (auto simp: pairing_def Let_def blank_check)
  ultimately show "wine_handler env rq
                = (Reply True 400 (Obj [(''error'', ''Food name is required'')]), [])" by simp
next
  assume a: "first_segment (query rq ''action'') = Some ''dishes'' \<and>
            (query rq ''wine'' = None \<or>
             (\<exists>wine. query rq ''wine'' = Some (QStr wine) \<and> (\<forall>c\<in>set wine. isWhiteSpace c)))"
  then have "wine_handler env rq = dishes env rq"
    using assms by (simp add: wine_handler_def)
  moreover have "dishes env rq = (Reply True 400 (Obj [(''error'', ''Wine type is required'')]), [])"
    using a by (auto simp: dishes_def blank_check)
  ultimately show "wine_handler env rq
                = (Reply True 400 (Obj [(''error'', ''Wine type is required'')]), [])" by simp
qed

theorem required_parameter_missing_witness:
  "wine_handler sample_wine_env
      (get [(''action'', QArr [''pairing'']), (''food'', QStr [CHR '' '', CHR 0x09]), (''maxPrice'', QStr ''-1'')])
     = (Reply True 400 (Obj [(''error'', ''Food name is required'')]), [])
   \<and> wine_handler sample_wine_env (get [(''action'', QArr [''dishes''])])
     = (Reply True 400 (Obj [(''error'', ''Wine type is required'')]), [])"
  using required_parameter_missing[of sample_wine_env
          "get [(''action'', QArr [''pairing'']), (''food'', QStr [CHR '' '', CHR 0x09]), (''maxPrice'', QStr ''-1'')]"]
        required_parameter_missing[of sample_wine_env "get [(''action'', QArr [''dishes''])]"]
  by (simp add: get_def sample_wine_env_def isWhiteSpace_def)

section \<open>Validation of the recipe id\<close>

lemma recipeId_rejected_iff:
  "\<not> recipeId_ok (recipeId_of rq) \<longleftrightarrow>
     (query rq ''recipeId'' = None \<or>
      (\<exists>v. query rq ''recipeId'' = Some v \<and>
           (toString v = [] \<or> (\<exists>c\<in>set (toString v). \<not> isDigit c))))"
proof (cases "query rq ''recipeId''")
  case None
  then show ?thesis by (simp add: recipeId_of_def recipeId_ok_def)
next
  case (Some v)
  then show ?thesis
    by (cases v) (auto simp: recipeId_of_def recipeId_ok_def digits_only_def list_all_iff)
qed

text \<open>
  Claim C9, as stated, fails for a request that the preflight helper answers: the handler
  returns before it looks at the recipe id. With a helper that answers \<open>OPTIONS\<close> requests,
  an \<open>OPTIONS\<close> request with the recipe id \<open>abc\<close> does not get status 400.
\<close>

theorem invalid_recipeId_counterexample:
  "\<not> recipeId_ok (recipeId_of \<lparr>method' = ''OPTIONS'', query = map_of [(''recipeId'', QStr ''abc'')]\<rparr>)
   \<and> handleCorsPreflight sample_recipe_env
        \<lparr>method' = ''OPTIONS'', query = map_of [(''recipeId'', QStr ''abc'')]\<rparr>
   \<and> recipe_handler sample_recipe_env
        \<lparr>method' = ''OPTIONS'', query = map_of [(''recipeId'', QStr ''abc'')]\<rparr>
     = (Preflight, [])"
  by (simp add: run_defs)

text \<open>
  Claim C9, amended. A request to the recipe-detail handler that the preflight helper did
  not answer, of any HTTP method, whose \<open>recipeId\<close> is absent, empty or contains a character
  that is not a digit gets status 400 with \<open>{"error": "Valid recipe ID is required"}\<close> and
  no upstream call: the check precedes the method check.
\<close>

theorem invalid_recipeId_rejected_first:
  assumes "\<not> handleCorsPreflight env rq"
    and "query rq ''recipeId'' = None \<or>
         (\<exists>v. query rq ''recipeId'' = Some v \<and>
              (toString v = [] \<or> (\<exists>c\<in>set (toString v). \<not> isDigit c)))"
  shows "recipe_handler env rq
           = (Reply True 400 (Obj [(''error'', ''Valid recipe ID is required'')]), [])"
  using assms recipeId_rejected_iff[of rq] by (simp add: recipe_handler_def)

theorem invalid_recipeId_rejected_first_witness:
  "recipe_handler sample_recipe_env
      \<lparr>method' = ''POST'', query = map_of [(''recipeId'', QStr ''12a''), (''action'', QArr [''summary''])]\<rparr>
     = (Reply True 400 (Obj [(''error'', ''Valid recipe ID is required'')]), [])
   \<and> recipe_handler sample_recipe_env \<lparr>method' = ''DELETE'', query = map_of [(''recipeId'', QStr '''')]\<rparr>
     = (Reply True 400 (Obj [(''error'', ''Valid recipe ID is required'')]), [])"
  using invalid_recipeId_rejected_first[of sample_recipe_env
      "\<lparr>method' = ''POST'', query = map_of [(''recipeId'', QStr ''12a''), (''action'', QArr [''summary''])]\<rparr>"]
    invalid_recipeId_rejected_first[of sample_recipe_env
      "\<lparr>method' = ''DELETE'', query = map_of [(''recipeId'', QStr '''')]\<rparr>"]
  by (simp add: sample_recipe_env_def isDigit_def)

section \<open>Method check and unknown routes\<close>

lemma recipeId_ok_string:
  "query rq ''recipeId'' = Some (QStr s) \<Longrightarrow> recipeId_ok (recipeId_of rq) \<longleftrightarrow> digits_only s"
  by (auto simp: recipeId_of_def recipeId_ok_def digits_only_def)

text \<open>
  Claim C1, as stated, fails on the recipe-detail handler: a \<open>POST\<close> request with the recipe
  id \<open>abc\<close>, which the preflight helper does not answer, gets status 400, not 405.
\<close>

theorem method_not_allowed_counterexample:
  "\<not> handleCorsPreflight sample_recipe_env
        \<lparr>method' = ''POST'', query = map_of [(''recipeId'', QStr ''abc'')]\<rparr>
   \<and> method' \<lparr>method' = ''POST'', query = map_of [(''recipeId'', QStr ''abc'')]\<rparr> \<noteq> ''GET''
   \<and> recipe_handler sample_recipe_env
        \<lparr>method' = ''POST'', query = map_of [(''recipeId'', QStr ''abc'')]\<rparr>
     = (Reply True 400 (Obj [(''error'', ''Valid recipe ID is required'')]), [])"
  by (simp add: run_defs)

text \<open>
  Claim C1, amended. For a request whose method is not \<open>GET\<close> and which the preflight
  helper did not answer: the food/wine handler returns status 405 with
  \<open>{"error": "Method not allowed"}\<close>; the recipe-detail handler does so when the recipe id
  passes its check (for a string: not empty and digits only). Neither makes an upstream call.
\<close>

theorem method_not_allowed:
  assumes "method' rq \<noteq> ''GET''"
  shows "(\<not> handleCorsPreflight wenv rq \<longrightarrow>
            wine_handler wenv rq = (Reply True 405 (Obj [(''error'', ''Method not allowed'')]), []))
       \<and> (\<not> handleCorsPreflight renv rq \<and> recipeId_ok (recipeId_of rq) \<longrightarrow>
            recipe_handler renv rq = (Reply True 405 (Obj [(''error'', ''Method not allowed'')]), []))"
  using assms by (simp add: wine_handler_def recipe_handler_def)

theorem method_not_allowed_witness:
  "wine_handler sample_wine_env
      \<lparr>method' = ''POST'', query = map_of [(''action'', QArr [''pairing'']), (''food'', QStr ''steak'')]\<rparr>
     = (Reply True 405 (Obj [(''error'', ''Method not allowed'')]), [])
   \<and> recipe_handler sample_recipe_env
      \<lparr>method' = ''PUT'', query = map_of [(''recipeId'', QStr ''716429''), (''action'', QArr [''summary''])]\<rparr>
     = (Reply True 405 (Obj [(''error'', ''Method not allowed'')]), [])"
proof -
  let ?a = "\<lparr>method' = ''POST'', query = map_of [(''action'', QArr [''pairing'']), (''food'', QStr ''steak'')]\<rparr>"
  let ?b = "\<lparr>method' = ''PUT'', query = map_of [(''recipeId'', QStr ''716429''), (''action'', QArr [''summary''])]\<rparr>"
  have ok: "recipeId_ok (recipeId_of ?b)"
    by (simp add: recipeId_of_def recipeId_ok_def digits_only_def isDigit_def)
  show ?thesis
    using method_not_allowed[of ?a sample_wine_env sample_recipe_env]
      method_not_allowed[of ?b sample_wine_env sample_recipe_env] ok
    by (simp add: sample_wine_env_def sample_recipe_env_def)
qed

text \<open>
  Claim C5, as stated, fails on the recipe-detail handler: a \<open>GET\<close> request for the unknown
  action \<open>bogus\<close> with the recipe id \<open>12a\<close> gets status 400, not 404.
\<close>

theorem unknown_action_counterexample:
  "first_segment (query (get [(''recipeId'', QStr ''12a''), (''action'', QArr [''bogus''])]) ''action'')
     = Some ''bogus''
   \<and> recipe_handler sample_recipe_env
        (get [(''recipeId'', QStr ''12a''), (''action'', QArr [''bogus''])])
     = (Reply True 400 (Obj [(''error'', ''Valid recipe ID is required'')]), [])"
  by (simp add: run_defs)

text \<open>
  Claim C5, amended. For a \<open>GET\<close> request that the preflight helper did not answer and
  whose first path segment is none of the handled actions (also when there is no segment):
  the food/wine handler returns status 404 with \<open>{"error": "Not found"}\<close>; the recipe-detail
  handler does so when the recipe id passes its check. Neither makes an upstream call.
\<close>

theorem unknown_action_not_found:
  assumes "method' rq = ''GET''"
  shows "(\<not> handleCorsPreflight wenv rq \<and>
            first_segment (query rq ''action'') \<notin> {Some ''dishes'', Some ''pairing''} \<longrightarrow>
            wine_handler wenv rq = (Reply True 404 (Obj [(''error'', ''Not found'')]), []))
       \<and> (\<not> handleCorsPreflight renv rq \<and> recipeId_ok (recipeId_of rq) \<and>
            first_segment (query rq ''action'')
              \<notin> {Some ''information'', Some ''similar'', Some ''summary''} \<longrightarrow>
            recipe_handler renv rq = (Reply True 404 (Obj [(''error'', ''Not found'')]), []))"
  using assms by (simp add: wine_handler_def recipe_handler_def)

theorem unknown_action_not_found_witness:
  "wine_handler sample_wine_env (get [(''recipeId'', QStr ''716429''), (''action'', QArr [''summary'', ''pairing''])])
     = (Reply True 404 (Obj [(''error'', ''Not found'')]), [])
   \<and> recipe_handler sample_recipe_env (get [(''recipeId'', QStr ''716429''), (''action'', QArr [''pairing''])])
     = (Reply True 404 (Obj [(''error'', ''Not found'')]), [])
   \<and> recipe_handler sample_recipe_env (get [(''recipeId'', QStr ''716429'')])
     = (Reply True 404 (Obj [(''error'', ''Not found'')]), [])"
proof -
  let ?a = "get [(''recipeId'', QStr ''716429''), (''action'', QArr [''summary'', ''pairing''])]"
  let ?b = "get [(''recipeId'', QStr ''716429''), (''action'', QArr [''pairing''])]"
  let ?c = "get [(''recipeId'', QStr ''716429'')]"
  have ok: "recipeId_ok (recipeId_of ?b)" "recipeId_ok (recipeId_of ?c)"
    by (simp_all add: get_def recipeId_of_def recipeId_ok_def digits_only_def isDigit_def)
  show ?thesis
    using unknown_action_not_found[of ?a sample_wine_env sample_recipe_env]
      unknown_action_not_found[of ?b sample_wine_env sample_recipe_env]
      unknown_action_not_found[of ?c sample_wine_env sample_recipe_env] ok
    by (simp add: get_def sample_wine_env_def sample_recipe_env_def)
qed

section \<open>Dispatch of the recipe-detail handler\<close>

lemma recipe_handler_get:
  assumes "\<not> handleCorsPreflight env rq" and "method' rq = ''GET''"
    and "query rq ''recipeId'' = Some (QStr rid)" and "digits_only rid"
  shows "recipe_handler env rq =
    (if first_segment (query rq ''action'') = Some ''information''
     then recipe_call_and_send env (GetRecipeInformation (QStr rid) (information_options rq))
     else if first_segment (query rq ''action'') = Some ''similar'' then similar env rq (QStr rid)
     else if first_segment (query rq ''action'') = Some ''summary''
     then recipe_call_and_send env (GetRecipeSummary (QStr rid))
     else (Reply True 404 (Obj [(''error'', ''Not found'')]), []))"
proof -
  have "rid \<noteq> []" using assms(4) by (simp add: digits_only_def)
  then have "recipeId_of rq = QStr rid" using assms(3) by (simp add: recipeId_of_def)
  moreover have "recipeId_ok (recipeId_of rq)" using assms(3,4) by (simp add: recipeId_ok_string)
  ultimately show ?thesis using assms(1,2) by (simp add: recipe_handler_def)
qed

lemma recipe_call_and_send_trace: "snd (recipe_call_and_send env c) = [c]"
  by (simp add: recipe_call_and_send_def split: sum.splits)

lemma recipe_call_and_send_ok:
  "recipe_upstream env c = Inr r \<Longrightarrow> fst (recipe_call_and_send env c) = Reply True 200 (Results r)"
  by (simp add: recipe_call_and_send_def)

lemma recipe_handler_first_segment_only:
  assumes "handleCorsPreflight env rq' = handleCorsPreflight env rq"
    and "method' rq' = method' rq"
    and "first_segment (query rq' ''action'') = first_segment (query rq ''action'')"
    and "\<forall>k. k \<noteq> ''action'' \<longrightarrow> query rq' k = query rq k"
  shows "recipe_handler env rq' = recipe_handler env rq"
proof -
  have q: "query rq' ''recipeId'' = query rq ''recipeId''"
    "query rq' ''number'' = query rq ''number''"
    "query rq' ''includeNutrition'' = query rq ''includeNutrition''"
    "query rq' ''addWinePairing'' = query rq ''addWinePairing''"
    "query rq' ''addTasteData'' = query rq ''addTasteData''"
    using assms(4) by simp_all
  have "recipeId_of rq' = recipeId_of rq" by (simp add: recipeId_of_def q)
  moreover have "information_options rq' = information_options rq"
    by (simp add: information_options_def q)
  moreover have "similar env rq' = similar env rq"
    by (simp add: similar_def similar_number_def q fun_eq_iff)
  ultimately show ?thesis using assms(1,2,3) by (simp add: recipe_handler_def Let_def)
qed

text \<open>
  Claim C3, as stated, fails on the \<open>similar\<close> route: with the recipe id \<open>716429\<close> and
  \<open>number=0\<close> the handler returns status 400 and does not call \<open>getSimilarRecipes\<close>.
\<close>

theorem recipe_detail_dispatch_counterexample:
  "first_segment (query (get [(''recipeId'', QStr ''716429''), (''action'', QArr [''similar'']),
                              (''number'', QStr ''0'')]) ''action'') = Some ''similar''
   \<and> recipe_handler sample_recipe_env
        (get [(''recipeId'', QStr ''716429''), (''action'', QArr [''similar'']), (''number'', QStr ''0'')])
     = (Reply True 400 (Obj [(''error'', ''Number must be between 1 and 100'')]), [])"
  by (simp add: run_defs)

text \<open>
  Claim C3, amended. For a \<open>GET\<close> request that the preflight helper did not answer and
  whose \<open>recipeId\<close> is a non-empty string of digits, the first path segment alone selects
  the upstream call:
  \<^item> \<open>information\<close>: \<open>getRecipeInformation(recipeId, options)\<close> is the one call made, each
    option being true exactly when its query parameter is the string \<open>true\<close>;
  \<^item> \<open>similar\<close>, when the number read from the query is between 1 and 100:
    \<open>getSimilarRecipes(recipeId, number)\<close> is the one call made;
  \<^item> \<open>summary\<close>: \<open>getRecipeSummary(recipeId)\<close> is the one call made;
  and in each case the reply is status 200 with the call's result when the call returns.
  A request that differs only in the path segments after the first gets the same answer.
\<close>

theorem recipe_detail_dispatch:
  assumes "\<not> handleCorsPreflight env rq" and "method' rq = ''GET''"
    and "query rq ''recipeId'' = Some (QStr rid)" and "digits_only rid"
  shows "(first_segment (query rq ''action'') = Some ''information'' \<longrightarrow>
            snd (recipe_handler env rq)
              = [GetRecipeInformation (QStr rid)
                   \<lparr>includeNutrition = (query rq ''includeNutrition'' = Some (QStr ''true'')),
                    addWinePairing = (query rq ''addWinePairing'' = Some (QStr ''true'')),
                    addTasteData = (query rq ''addTasteData'' = Some (QStr ''true''))\<rparr>]
            \<and> (\<forall>r. getRecipeInformation env (QStr rid)
                   \<lparr>includeNutrition = (query rq ''includeNutrition'' = Some (QStr ''true'')),
                    addWinePairing = (query rq ''addWinePairing'' = Some (QStr ''true'')),
                    addTasteData = (query rq ''addTasteData'' = Some (QStr ''true''))\<rparr> = Inr r
                 \<longrightarrow> fst (recipe_handler env rq) = Reply True 200 (Results r)))
       \<and> (first_segment (query rq ''action'') = Some ''similar'' \<and>
            similar_number rq = Some n \<and> 1 \<le> n \<and> n \<le> 100 \<longrightarrow>
            snd (recipe_handler env rq) = [GetSimilarRecipes (QStr rid) n]
            \<and> (\<forall>r. getSimilarRecipes env (QStr rid) n = Inr r
                 \<longrightarrow> fst (recipe_handler env rq) = Reply True 200 (Results r)))
       \<and> (first_segment (query rq ''action'') = Some ''summary'' \<longrightarrow>
            snd (recipe_handler env rq) = [GetRecipeSummary (QStr rid)]
            \<and> (\<forall>r. getRecipeSummary env (QStr rid) = Inr r
                 \<longrightarrow> fst (recipe_handler env rq) = Reply True 200 (Results r)))
       \<and> (\<forall>rq'. \<not> handleCorsPreflight env rq' \<and> method' rq' = ''GET'' \<and>
              first_segment (query rq' ''action'') = first_segment (query rq ''action'') \<and>
              (\<forall>k. k \<noteq> ''action'' \<longrightarrow> query rq' k = query rq k)
              \<longrightarrow> recipe_handler env rq' = recipe_handler env rq)"
proof (intro conjI impI allI)
  assume a: "first_segment (query rq ''action'') = Some ''information''"
  then have h: "recipe_handler env rq
      = recipe_call_and_send env (GetRecipeInformation (QStr rid) (information_options rq))"
    using recipe_handler_get[OF assms] by simp
  show "snd (recipe_handler env rq)
              = [GetRecipeInformation (QStr rid)
                   \<lparr>includeNutrition = (query rq ''includeNutrition'' = Some (QStr ''true'')),
                    addWinePairing = (query rq ''addWinePairing'' = Some (QStr ''true'')),
                    addTasteData = (query rq ''addTasteData'' = Some (QStr ''true''))\<rparr>]"
    by (simp add: h recipe_call_and_send_trace information_options_def)
  fix r
  assume "getRecipeInformation env (QStr rid)
                   \<lparr>includeNutrition = (query rq ''includeNutrition'' = Some (QStr ''true'')),
                    addWinePairing = (query rq ''addWinePairing'' = Some (QStr ''true'')),
                    addTasteData = (query rq ''addTasteData'' = Some (QStr ''true''))\<rparr> = Inr r"
  then show "fst (recipe_handler env rq) = Reply True 200 (Results r)"
    by (simp add: h recipe_call_and_send_ok recipe_upstream_def information_options_def)
next
  assume a: "first_segment (query rq ''action'') = Some ''similar'' \<and>
            similar_number rq = Some n \<and> 1 \<le> n \<and> n \<le> 100"
  then have h: "recipe_handler env rq = recipe_call_and_send env (GetSimilarRecipes (QStr rid) n)"
    using recipe_handler_get[OF assms] by (simp add: similar_def)
  show "snd (recipe_handler env rq) = [GetSimilarRecipes (QStr rid) n]"
    by (simp add: h recipe_call_and_send_trace)
  fix r
  assume "getSimilarRecipes env (QStr rid) n = Inr r"
  then show "fst (recipe_handler env rq) = Reply True 200 (Results r)"
    by (simp add: h recipe_call_and_send_ok recipe_upstream_def)
next
  assume a: "first_segment (query rq ''action'') = Some ''summary''"
  then have h: "recipe_handler env rq = recipe_call_and_send env (GetRecipeSummary (QStr rid))"
    using recipe_handler_get[OF assms] by simp
  show "snd (recipe_handler env rq) = [GetRecipeSummary (QStr rid)]"
    by (simp add: h recipe_call_and_send_trace)
  fix r
  assume "getRecipeSummary env (QStr rid) = Inr r"
  then show "fst (recipe_handler env rq) = Reply True 200 (Results r)"
    by (simp add: h recipe_call_and_send_ok recipe_upstream_def)
next
  fix rq'
  assume "\<not> handleCorsPreflight env rq' \<and> method' rq' = ''GET'' \<and>
              first_segment (query rq' ''action'') = first_segment (query rq ''action'') \<and>
              (\<forall>k. k \<noteq> ''action'' \<longrightarrow> query rq' k = query rq k)"
  then show "recipe_handler env rq' = recipe_handler env rq"
    using assms(1,2) recipe_handler_first_segment_only[of env rq' rq] by simp
qed


theorem recipe_detail_dispatch_witness:
  "recipe_handler sample_recipe_env
      (get [(''recipeId'', QStr ''716429''), (''action'', QArr [''information'', ''similar'']),
            (''includeNutrition'', QStr ''true''), (''addTasteData'', QStr ''yes'')])
     = (Reply True 200 (Results ''716429''),
        [GetRecipeInformation (QStr ''716429'')
           \<lparr>includeNutrition = True, addWinePairing = False, addTasteData = False\<rparr>])
   \<and> recipe_handler sample_recipe_env
      (get [(''recipeId'', QStr ''716429''), (''action'', QArr [''similar'', ''summary'']),
            (''number'', QStr ''7'')])
     = (Reply True 200 (Results ''716429''), [GetSimilarRecipes (QStr ''716429'') 7])
   \<and> recipe_handler sample_recipe_env
      (get [(''recipeId'', QStr ''716429''), (''action'', QArr [''similar'']), (''number'', QStr ''7'')])
     = recipe_handler sample_recipe_env
      (get [(''recipeId'', QStr ''716429''), (''action'', QArr [''similar'', ''summary'']),
            (''number'', QStr ''7'')])"
proof -
  let ?i = "get [(''recipeId'', QStr ''716429''), (''action'', QArr [''information'', ''similar'']),
            (''includeNutrition'', QStr ''true''), (''addTasteData'', QStr ''yes'')]"
  let ?s = "get [(''recipeId'', QStr ''716429''), (''action'', QArr [''similar'', ''summary'']),
            (''number'', QStr ''7'')]"
  let ?s' = "get [(''recipeId'', QStr ''716429''), (''action'', QArr [''similar'']),
            (''number'', QStr ''7'')]"
  have d: "digits_only ''716429''" by (simp add: digits_only_def isDigit_def)
  have p: "\<not> handleCorsPreflight sample_recipe_env ?i" "\<not> handleCorsPreflight sample_recipe_env ?s"
    "\<not> handleCorsPreflight sample_recipe_env ?s'"
    by (simp_all add: sample_recipe_env_def get_def)
  have n: "similar_number ?s = Some 7"
    by (simp add: similar_number_def parseInt10_def digits_value_def isDigit_def isWhiteSpace_def
        get_def)
  have up: "getRecipeInformation sample_recipe_env (QStr ''716429'')
              \<lparr>includeNutrition = True, addWinePairing = False, addTasteData = False\<rparr>
              = Inr ''716429''"
    "getSimilarRecipes sample_recipe_env (QStr ''716429'') 7 = Inr ''716429''"
    by (simp_all add: sample_recipe_env_def)
  have i: "recipe_handler sample_recipe_env ?i
     = (Reply True 200 (Results ''716429''),
        [GetRecipeInformation (QStr ''716429'')
           \<lparr>includeNutrition = True, addWinePairing = False, addTasteData = False\<rparr>])"
    using recipe_detail_dispatch[of sample_recipe_env ?i "''716429''" 7] d p(1) up(1)
    by (simp add: get_def prod_eq_iff)
  have s: "recipe_handler sample_recipe_env ?s
       = (Reply True 200 (Results ''716429''), [GetSimilarRecipes (QStr ''716429'') 7])
     \<and> recipe_handler sample_recipe_env ?s' = recipe_handler sample_recipe_env ?s"
    using recipe_detail_dispatch[of sample_recipe_env ?s "''716429''" 7] d p(2,3) up(2) n
    by (simp add: get_def prod_eq_iff)
  show ?thesis using i s by simp
qed

section \<open>The number of similar recipes\<close>

text \<open>
  Claim C7, as stated, fails when the \<open>number\<close> parameter is present but empty
  (\<open>?number=\<close>): \<open>parseInt\<close> of the empty string is \<open>NaN\<close>, yet the handler does not
  parse it; it takes the default 10 and calls \<open>getSimilarRecipes\<close>.
\<close>

theorem similar_number_counterexample:
  "query (get [(''recipeId'', QStr ''716429''), (''action'', QArr [''similar'']),
               (''number'', QStr '''')]) ''number'' = Some (QStr '''')
   \<and> parseInt10 '''' = None
   \<and> recipe_handler sample_recipe_env
        (get [(''recipeId'', QStr ''716429''), (''action'', QArr [''similar'']), (''number'', QStr '''')])
     = (Reply True 200 (Results ''716429''), [GetSimilarRecipes (QStr ''716429'') 10])"
  by (simp add: run_defs)

text \<open>
  Claim C7, amended. For a \<open>GET\<close> request on the \<open>similar\<close> route that the preflight helper
  did not answer, with a \<open>recipeId\<close> that is a non-empty string of digits:
  \<^item> when \<open>number\<close> is absent or the empty string, \<open>getSimilarRecipes\<close> is called with 10;
  \<^item> otherwise \<open>number\<close> is parsed with \<open>parseInt\<close>, base 10; if that yields \<open>NaN\<close> or a value
    below 1 or above 100 the answer is status 400 with
    \<open>{"error": "Number must be between 1 and 100"}\<close> and no upstream call;
  \<^item> else \<open>getSimilarRecipes\<close> is called with the parsed number.
  A call that is made is answered with status 200 and its result, or by the \<open>catch\<close> block.
\<close>

theorem similar_number_validation:
  assumes "\<not> handleCorsPreflight env rq" and "method' rq = ''GET''"
    and "query rq ''recipeId'' = Some (QStr rid)" and "digits_only rid"
    and "first_segment (query rq ''action'') = Some ''similar''"
  shows "(query rq ''number'' = None \<or> query rq ''number'' = Some (QStr '''') \<longrightarrow>
            recipe_handler env rq = recipe_call_and_send env (GetSimilarRecipes (QStr rid) 10))
       \<and> (\<forall>v. query rq ''number'' = Some v \<and> v \<noteq> QStr '''' \<longrightarrow>
            (parseInt10 (toString v) = None \<longrightarrow>
               recipe_handler env rq
                 = (Reply True 400 (Obj [(''error'', ''Number must be between 1 and 100'')]), []))
          \<and> (\<forall>n. parseInt10 (toString v) = Some n \<and> (n < 1 \<or> 100 < n) \<longrightarrow>
               recipe_handler env rq
                 = (Reply True 400 (Obj [(''error'', ''Number must be between 1 and 100'')]), []))
          \<and> (\<forall>n. parseInt10 (toString v) = Some n \<and> 1 \<le> n \<and> n \<le> 100 \<longrightarrow>
               recipe_handler env rq = recipe_call_and_send env (GetSimilarRecipes (QStr rid) n)))"
proof -
  have h: "recipe_handler env rq = similar env rq (QStr rid)"
    using recipe_handler_get[OF assms(1-4)] assms(5) by simp
  have t: "truthy v \<longleftrightarrow> v \<noteq> QStr ''''" for v by (cases v) simp_all
  show ?thesis
    unfolding h by (auto simp: similar_def similar_number_def t)
qed

theorem similar_number_validation_witness:
  "recipe_handler sample_recipe_env
      (get [(''recipeId'', QStr ''716429''), (''action'', QArr [''similar''])])
     = recipe_call_and_send sample_recipe_env (GetSimilarRecipes (QStr ''716429'') 10)
   \<and> recipe_handler sample_recipe_env
      (get [(''recipeId'', QStr ''716429''), (''action'', QArr [''similar'']), (''number'', QStr ''abc'')])
     = (Reply True 400 (Obj [(''error'', ''Number must be between 1 and 100'')]), [])
   \<and> recipe_handler sample_recipe_env
      (get [(''recipeId'', QStr ''716429''), (''action'', QArr [''similar'']), (''number'', QStr ''101'')])
     = (Reply True 400 (Obj [(''error'', ''Number must be between 1 and 100'')]), [])
   \<and> recipe_handler sample_recipe_env
      (get [(''recipeId'', QStr ''716429''), (''action'', QArr [''similar'']), (''number'', QStr ''100'')])
     = recipe_call_and_send sample_recipe_env (GetSimilarRecipes (QStr ''716429'') 100)"
proof -
  let ?a = "get [(''recipeId'', QStr ''716429''), (''action'', QArr [''similar''])]"
  let ?b = "get [(''recipeId'', QStr ''716429''), (''action'', QArr [''similar'']), (''number'', QStr ''abc'')]"
  let ?c = "get [(''recipeId'', QStr ''716429''), (''action'', QArr [''similar'']), (''number'', QStr ''101'')]"
  let ?d = "get [(''recipeId'', QStr ''716429''), (''action'', QArr [''similar'']), (''number'', QStr ''100'')]"
  have d: "digits_only ''716429''" by (simp add: digits_only_def isDigit_def)
  have p: "parseInt10 ''abc'' = None" "parseInt10 ''101'' = Some 101" "parseInt10 ''100'' = Some 100"
    by (simp_all add: parseInt10_def digits_value_def isDigit_def isWhiteSpace_def)
  have a: "recipe_handler sample_recipe_env ?a
     = recipe_call_and_send sample_recipe_env (GetSimilarRecipes (QStr ''716429'') 10)"
    using similar_number_validation[of sample_recipe_env ?a "''716429''"] d
    by (simp add: get_def sample_recipe_env_def)
  have b: "recipe_handler sample_recipe_env ?b
     = (Reply True 400 (Obj [(''error'', ''Number must be between 1 and 100'')]), [])"
    using similar_number_validation[of sample_recipe_env ?b "''716429''"] d p
    by (simp add: get_def sample_recipe_env_def)
  have c: "recipe_handler sample_recipe_env ?c
     = (Reply True 400 (Obj [(''error'', ''Number must be between 1 and 100'')]), [])"
    using similar_number_validation[of sample_recipe_env ?c "''716429''"] d p
    by (simp add: get_def sample_recipe_env_def)
  have e: "recipe_handler sample_recipe_env ?d
     = recipe_call_and_send sample_recipe_env (GetSimilarRecipes (QStr ''716429'') 100)"
    using similar_number_validation[of sample_recipe_env ?d "''716429''"] d p
    by (simp add: get_def sample_recipe_env_def)
  show ?thesis using a b c e by simp
qed

section \<open>The maximum price of a wine pairing\<close>

lemma wine_handler_pairing:
  assumes "\<not> handleCorsPreflight env rq" and "method' rq = ''GET''"
    and "first_segment (query rq ''action'') = Some ''pairing''"
  shows "wine_handler env rq = pairing env rq"
  using assms by (simp add: wine_handler_def)

text \<open>
  Claim C6, as stated, fails when the \<open>maxPrice\<close> parameter is present but empty
  (\<open>?maxPrice=\<close>): \<open>parseFloat\<close> of the empty string is \<open>NaN\<close>, yet the handler does not parse
  it; it calls \<open>getWinePairing\<close> with \<open>undefined\<close>.
\<close>

theorem maxPrice_counterexample:
  "query (get [(''action'', QArr [''pairing'']), (''food'', QStr ''steak''), (''maxPrice'', QStr '''')])
      ''maxPrice'' = Some (QStr '''')
   \<and> isNaN sample_wine_env (parseFloat sample_wine_env '''')
   \<and> wine_handler sample_wine_env
        (get [(''action'', QArr [''pairing'']), (''food'', QStr ''steak''), (''maxPrice'', QStr '''')])
     = (Reply True 200 (Results ''steak''), [GetWinePairing ''steak'' None])"
  by (simp add: run_defs)

text \<open>
  Claim C6, amended. For a \<open>GET\<close> request on the \<open>pairing\<close> route that the preflight helper
  did not answer, whose \<open>food\<close> is a string with a character that is not white space:
  \<^item> when \<open>maxPrice\<close> is absent or the empty string, \<open>getWinePairing(food, undefined)\<close> is
    called;
  \<^item> otherwise, if \<open>parseFloat\<close> of it is \<open>NaN\<close> or below zero, the answer is status 400 with
    \<open>{"error": "maxPrice must be a positive number"}\<close> and no upstream call;
  \<^item> else \<open>getWinePairing\<close> is called with the food and the parsed value.
  A call that is made is answered with status 200 and its result, or by the \<open>catch\<close> block.
\<close>

theorem maxPrice_validation:
  assumes "\<not> handleCorsPreflight env rq" and "method' rq = ''GET''"
    and "first_segment (query rq ''action'') = Some ''pairing''"
    and "query rq ''food'' = Some (QStr food)" and "\<exists>c\<in>set food. \<not> isWhiteSpace c"
  shows "(query rq ''maxPrice'' = None \<or> query rq ''maxPrice'' = Some (QStr '''') \<longrightarrow>
            wine_handler env rq = wine_call_and_send env (GetWinePairing food None))
       \<and> (\<forall>v. query rq ''maxPrice'' = Some v \<and> v \<noteq> QStr '''' \<longrightarrow>
            (isNaN env (parseFloat env (toString v)) \<or> ltZero env (parseFloat env (toString v)) \<longrightarrow>
               wine_handler env rq
                 = (Reply True 400 (Obj [(''error'', ''maxPrice must be a positive number'')]), []))
          \<and> (\<not> isNaN env (parseFloat env (toString v)) \<and> \<not> ltZero env (parseFloat env (toString v)) \<longrightarrow>
               wine_handler env rq
                 = wine_call_and_send env (GetWinePairing food (Some (parseFloat env (toString v))))))"
proof -
  have t: "truthy v \<longleftrightarrow> v \<noteq> QStr ''''" for v by (cases v) simp_all
  have f: "\<not> (food = [] \<or> trim food = [])" using assms(5) by (simp add: blank_check)
  show ?thesis
    unfolding wine_handler_pairing[OF assms(1-3)] using f assms(4)
    by (auto simp: pairing_def t)
qed

theorem maxPrice_validation_witness:
  "wine_handler sample_wine_env (get [(''action'', QArr [''pairing'']), (''food'', QStr ''steak'')])
     = wine_call_and_send sample_wine_env (GetWinePairing ''steak'' None)
   \<and> wine_handler sample_wine_env
        (get [(''action'', QArr [''pairing'']), (''food'', QStr ''steak''), (''maxPrice'', QStr ''-5'')])
     = (Reply True 400 (Obj [(''error'', ''maxPrice must be a positive number'')]), [])
   \<and> wine_handler sample_wine_env
        (get [(''action'', QArr [''pairing'']), (''food'', QStr ''steak''), (''maxPrice'', QStr ''0'')])
     = wine_call_and_send sample_wine_env (GetWinePairing ''steak'' (Some (Some 0)))"
proof -
  let ?a = "get [(''action'', QArr [''pairing'']), (''food'', QStr ''steak'')]"
  let ?b = "get [(''action'', QArr [''pairing'']), (''food'', QStr ''steak''), (''maxPrice'', QStr ''-5'')]"
  let ?c = "get [(''action'', QArr [''pairing'']), (''food'', QStr ''steak''), (''maxPrice'', QStr ''0'')]"
  have w: "\<exists>c\<in>set ''steak''. \<not> isWhiteSpace c" by (simp add: isWhiteSpace_def)
  have p: "parseInt10 ''-5'' = Some (- 5)" "parseInt10 ''0'' = Some 0"
    by (simp_all add: parseInt10_def digits_value_def isDigit_def isWhiteSpace_def)
  have a: "wine_handler sample_wine_env ?a
     = wine_call_and_send sample_wine_env (GetWinePairing ''steak'' None)"
    using maxPrice_validation[of sample_wine_env ?a "''steak''"] w
    by (simp add: get_def sample_wine_env_def)
  have b: "wine_handler sample_wine_env ?b
     = (Reply True 400 (Obj [(''error'', ''maxPrice must be a positive number'')]), [])"
    using maxPrice_validation[of sample_wine_env ?b "''steak''"] w p
    by (simp add: get_def sample_wine_env_def)
  have c: "wine_handler sample_wine_env ?c
     = wine_call_and_send sample_wine_env (GetWinePairing ''steak'' (Some (Some 0)))"
    using maxPrice_validation[of sample_wine_env ?c "''steak''"] w p
    by (simp add: get_def sample_wine_env_def)
  show ?thesis using a b c by simp
qed

section \<open>Capitalising words\<close>

lemma toUpperCase_of_lower:
  assumes "isLower c"
  shows "isUpper (toUpperCase c)" and "\<not> isLower (toUpperCase c)"
proof -
  have r: "97 \<le> (of_char c :: nat)" "(of_char c :: nat) \<le> 122"
    using assms by (simp_all add: isLower_def)
  then have "(of_char c - 32 :: nat) < 256" by simp
  then have v: "of_char (char_of (of_char c - 32 :: nat)) = (of_char c - 32 :: nat)"
    by (simp add: of_char_of)
  have u: "toUpperCase c = char_of (of_char c - 32 :: nat)"
    using assms by (simp add: toUpperCase_def)
  have "65 \<le> (of_char c - 32 :: nat) \<and> (of_char c - 32 :: nat) \<le> 90" using r by arith
  then show "isUpper (toUpperCase c)" unfolding u isUpper_def v .
  have "\<not> 97 \<le> (of_char c - 32 :: nat)" using r by arith
  then show "\<not> isLower (toUpperCase c)" unfolding u isLower_def v by simp
qed

lemma toUpperCase_idem: "toUpperCase (toUpperCase c) = toUpperCase c"
proof (cases "isLower c")
  case True
  then show ?thesis using toUpperCase_of_lower(2)[of c] by (simp add: toUpperCase_def)
next
  case False
  then show ?thesis by (simp add: toUpperCase_def)
qed

lemma isWordChar_toUpperCase: "isWordChar (toUpperCase c) = isWordChar c"
proof (cases "isLower c")
  case True
  then show ?thesis using toUpperCase_of_lower(1)[of c] by (simp add: isWordChar_def)
next
  case False
  then show ?thesis by (simp add: toUpperCase_def)
qed

lemma replace_word_starts_idem:
  "replace_word_starts prev (replace_word_starts prev s) = replace_word_starts prev s"
proof (induction s arbitrary: prev)
  case Nil
  show ?case by simp
next
  case (Cons c cs)
  show ?case
    by (simp add: Cons.IH isWordChar_toUpperCase toUpperCase_idem)
qed

lemma replace_word_starts_Nil: "replace_word_starts prev s = [] \<longleftrightarrow> s = []"
  by (cases s) simp_all

text \<open>
  Claim C10. \<open>capitalizeWords\<close> is idempotent, and it returns the empty string for an
  undefined and for an empty input.
\<close>

theorem capitalizeWords_idempotent:
  "capitalizeWords (Some (capitalizeWords str)) = capitalizeWords str
   \<and> capitalizeWords None = [] \<and> capitalizeWords (Some []) = []"
proof (cases str)
  case None
  then show ?thesis by (simp add: capitalizeWords_def)
next
  case (Some s)
  then show ?thesis
    by (simp add: capitalizeWords_def replace_word_starts_idem replace_word_starts_Nil)
qed

lemma capitalizeWords_example:
  "capitalizeWords (Some ''chicken tikka  masala'') = ''Chicken Tikka  Masala''"
  by code_simp

section \<open>Retry settings\<close>

lemma upt_0_2: "[0 ..< (2::nat)] = [0, 1]"
  by (simp add: upt_rec)

text \<open>
  Claim C8. Every query of the client cache layer has a fixed retry count and no growing
  delay between retries, whatever the defaults of the query library are: the query
  client's default is \<open>retry: 1\<close>, and \<open>useSearchRecipes\<close>, \<open>useFavouriteRecipes\<close> and
  \<open>useRecipeSummary\<close> set \<open>retry: 1\<close> for all their arguments, so a failing query is retried
  once, after a single delay; \<open>useWeatherSuggestions\<close> sets \<open>retry: 2\<close> and the constant
  \<open>retryDelay\<close> of 1000 ms, so it is retried twice, after 1000 ms each time; the default
  for mutations is \<open>retry: 0\<close>, which no mutation hook overrides, so a mutation is never
  retried.
\<close>

theorem retry_settings:
  "retry queryClient_queries = Some 1
   \<and> retry_schedule lib_retry lib_delay queryClient_queries no_options = [lib_delay 0]
   \<and> retry (useSearchRecipes searchTerm page on) = Some 1
   \<and> retry_schedule lib_retry lib_delay queryClient_queries (useSearchRecipes searchTerm page on)
       = [lib_delay 0]
   \<and> retry useFavouriteRecipes = Some 1
   \<and> retry_schedule lib_retry lib_delay queryClient_queries useFavouriteRecipes = [lib_delay 0]
   \<and> retry (useRecipeSummary recipeId on) = Some 1
   \<and> retry_schedule lib_retry lib_delay queryClient_queries (useRecipeSummary recipeId on)
       = [lib_delay 0]
   \<and> retry (useWeatherSuggestions location on) = Some 2
   \<and> retryDelay (useWeatherSuggestions location on) = Some (Delay_ms 1000)
   \<and> retry_schedule lib_retry lib_delay queryClient_queries (useWeatherSuggestions location on)
       = [1000, 1000]
   \<and> mutation_retry queryClient_mutations = Some 0
   \<and> retry_count lib_retry (mutation_retry queryClient_mutations)
         (mutation_retry useAddFavouriteRecipe) = 0
   \<and> retry_count lib_retry (mutation_retry queryClient_mutations)
         (mutation_retry useRemoveFavouriteRecipe) = 0"
proof -
  have client: "retry queryClient_queries = Some 1" "retryDelay queryClient_queries = None"
    by (simp_all add: queryClient_queries_def)
  have one: "retry_schedule lib_retry lib_delay queryClient_queries own = [lib_delay 0]"
    if "retry own = Some 1 \<or> retry own = None" and "retryDelay own = None" for own
    using that client
    by (auto simp: retry_schedule_def retry_count_def delay_before_retry_def in_force_def)
  have weather: "retry_schedule lib_retry lib_delay queryClient_queries
                   (useWeatherSuggestions location on) = [1000, 1000]"
    by (simp add: retry_schedule_def retry_count_def delay_before_retry_def in_force_def
        useWeatherSuggestions_def client upt_0_2)
  have mutations: "retry_count lib_retry (mutation_retry queryClient_mutations) None = 0"
    by (simp add: retry_count_def in_force_def queryClient_mutations_def)
  show ?thesis
    using client(1) weather mutations
      one[of no_options] one[of "useSearchRecipes searchTerm page on"]
      one[of useFavouriteRecipes] one[of "useRecipeSummary recipeId on"]
    by (simp add: no_options_def useSearchRecipes_def useFavouriteRecipes_def
        useRecipeSummary_def useWeatherSuggestions_def queryClient_mutations_def
        useAddFavouriteRecipe_def useRemoveFavouriteRecipe_def)
qed

end
